theory Spec2Isabelle
  imports Main "HOL-Library.Sublist"
begin

section \<open>Python values and dictionaries\<close>

text \<open>
  The values that travel through the client are the values of decoded JSON: \<open>None\<close>,
  booleans, integers, strings, lists and dictionaries (floats are left out). A
  dictionary is an association list in insertion order; the dictionaries of the source
  have unique keys.
\<close>

datatype pyval =
    PNone
  | PBool bool
  | PInt int
  | PStr string
  | PList "pyval list"
  | PDict "(string \<times> pyval) list"

type_synonym dict = "(string \<times> pyval) list"

definition crlf :: string where
  "crlf = [CHR 0x0D, CHR 0x0A]"

subsection \<open>\<open>str\<close> and \<open>repr\<close>\<close>

definition digit_char :: "nat \<Rightarrow> char" where
  "digit_char d = ''0123456789abcdef'' ! d"

fun digits :: "nat \<Rightarrow> string" where
  "digits n = (if n < 10 then [digit_char n] else digits (n div 10) @ [digit_char (n mod 10)])"

declare digits.simps [simp del]

definition str_int :: "int \<Rightarrow> string" where
  "str_int i = (if i < 0 then CHR ''-'' # digits (nat (- i)) else digits (nat i))"

text \<open>\<open>repr\<close> of one character of a string quoted with \<open>q\<close> (ASCII; bytes above 127 stand
  for printable text and are kept).\<close>

definition repr_char :: "char \<Rightarrow> char \<Rightarrow> string" where
  "repr_char q c =
     (if c = q \<or> c = CHR 0x5C then [CHR 0x5C, c]
      else if c = CHR 0x09 then [CHR 0x5C, CHR ''t'']
      else if c = CHR 0x0A then [CHR 0x5C, CHR ''n'']
      else if c = CHR 0x0D then [CHR 0x5C, CHR ''r'']
      else if (of_char c :: nat) < 32 \<or> (of_char c :: nat) = 127
        then [CHR 0x5C, CHR ''x'', digit_char ((of_char c :: nat) div 16),
              digit_char ((of_char c :: nat) mod 16)]
      else [c])"

definition repr_str :: "string \<Rightarrow> string" where
  "repr_str s =
     (let q = (if CHR 0x27 \<in> set s \<and> CHR 0x22 \<notin> set s then CHR 0x22 else CHR 0x27)
      in q # concat (map (repr_char q) s) @ [q])"

fun join_comma :: "string list \<Rightarrow> string" where
  "join_comma [] = []"
| "join_comma [x] = x"
| "join_comma (x # y # ys) = x @ '', '' @ join_comma (y # ys)"

fun py_repr :: "pyval \<Rightarrow> string" where
  "py_repr PNone = ''None''"
| "py_repr (PBool b) = (if b then ''True'' else ''False'')"
| "py_repr (PInt i) = str_int i"
| "py_repr (PStr s) = repr_str s"
| "py_repr (PList xs) = ''['' @ join_comma (map py_repr xs) @ '']''"
| "py_repr (PDict kvs) =
     ''{'' @ join_comma (map (\<lambda>kv. repr_str (fst kv) @ '': '' @ py_repr (snd kv)) kvs) @ ''}''"

text \<open>\<open>str(v)\<close>, which is what an f-string writes for \<open>{v}\<close>.\<close>

definition py_str :: "pyval \<Rightarrow> string" where
  "py_str v = (case v of PStr s \<Rightarrow> s | _ \<Rightarrow> py_repr v)"

subsection \<open>\<open>str.strip\<close>\<close>

text \<open>The whitespace that \<open>str.strip\<close> removes at both ends (the ASCII part of it).\<close>

definition isspace :: "char \<Rightarrow> bool" where
  "isspace c = (c \<in> set [CHR 0x09, CHR 0x0A, CHR 0x0B, CHR 0x0C, CHR 0x0D,
                          CHR 0x1C, CHR 0x1D, CHR 0x1E, CHR 0x1F, CHR 0x20])"

definition strip :: "string \<Rightarrow> string" where
  "strip s = rev (dropWhile isspace (rev (dropWhile isspace s)))"

subsection \<open>Dictionary operations\<close>

text \<open>\<open>d[k] = v\<close>: an existing key keeps its place, a new key goes to the end.\<close>

fun dict_set :: "(string \<times> 'v) list \<Rightarrow> string \<Rightarrow> 'v \<Rightarrow> (string \<times> 'v) list" where
  "dict_set [] k v = [(k, v)]"
| "dict_set ((k', v') # d) k v = (if k' = k then (k, v) # d else (k', v') # dict_set d k v)"

section \<open>The field-block encoder\<close>

text \<open>\<open>DradisAPI._construct_dradis_response\<close>: the loop appends one block per item.\<close>

definition field_block :: "string \<Rightarrow> pyval \<Rightarrow> string" where
  "field_block key val = ''#['' @ key @ '']#'' @ crlf @ py_str val @ crlf @ crlf"

definition construct_dradis_response :: "dict \<Rightarrow> string" where
  "construct_dradis_response data =
     foldl (\<lambda>construction (key, val). construction @ field_block key val) [] data"

section \<open>The merge of \<open>update_vulnerability\<close>\<close>

text \<open>
  The test of the loop, \<open>isinstance(value, str) and value.strip() or value is not None\<close>:
  \<open>and\<close> binds tighter than \<open>or\<close>, and a string is true when it is not empty.
\<close>

definition is_str :: "pyval \<Rightarrow> bool" where
  "is_str v = (case v of PStr _ \<Rightarrow> True | _ \<Rightarrow> False)"

definition update_test :: "pyval \<Rightarrow> bool" where
  "update_test val =
     ((is_str val \<and> (case val of PStr s \<Rightarrow> strip s \<noteq> [] | _ \<Rightarrow> False)) \<or> val \<noteq> PNone)"

text \<open>\<open>updated_vulnerability = current_vuln.copy()\<close>, then the loop over
  \<open>vulnerability.items()\<close>.\<close>

fun merge_update :: "dict \<Rightarrow> dict \<Rightarrow> dict" where
  "merge_update updated [] = updated"
| "merge_update updated ((key, val) # rest) =
     merge_update (if update_test val then dict_set updated key val else updated) rest"


section \<open>Errors and Python's operations on decoded JSON\<close>

datatype error =
    ValueError string
  | HTTPStatusError
  | NetworkError
  | KeyError string
  | TypeError
  | AttributeError
  | ValidationError

definition and_then :: "error + 'a \<Rightarrow> ('a \<Rightarrow> error + 'b) \<Rightarrow> error + 'b" where
  "and_then r f = (case r of Inl err \<Rightarrow> Inl err | Inr x \<Rightarrow> f x)"

fun map_err :: "('a \<Rightarrow> error + 'b) \<Rightarrow> 'a list \<Rightarrow> error + 'b list" where
  "map_err f [] = Inr []"
| "map_err f (x # xs) =
     (case f x of Inl err \<Rightarrow> Inl err
      | Inr y \<Rightarrow> (case map_err f xs of Inl err \<Rightarrow> Inl err | Inr ys \<Rightarrow> Inr (y # ys)))"

text \<open>\<open>for x in v\<close>: a dictionary yields its keys, a string its characters.\<close>

definition py_iter :: "pyval \<Rightarrow> error + pyval list" where
  "py_iter v =
     (case v of PList xs \<Rightarrow> Inr xs
      | PDict kvs \<Rightarrow> Inr (map (\<lambda>kv. PStr (fst kv)) kvs)
      | PStr s \<Rightarrow> Inr (map (\<lambda>c. PStr [c]) s)
      | _ \<Rightarrow> Inl TypeError)"

text \<open>\<open>v[key]\<close> with a string key.\<close>

definition subscript :: "pyval \<Rightarrow> string \<Rightarrow> error + pyval" where
  "subscript v key =
     (case v of
        PDict kvs \<Rightarrow> (case map_of kvs key of Some x \<Rightarrow> Inr x | None \<Rightarrow> Inl (KeyError key))
      | _ \<Rightarrow> Inl TypeError)"

text \<open>\<open>v.get(key, default)\<close> and \<open>v.items()\<close>: methods of dictionaries only.\<close>

definition py_get :: "pyval \<Rightarrow> string \<Rightarrow> pyval \<Rightarrow> error + pyval" where
  "py_get v key dflt =
     (case v of
        PDict kvs \<Rightarrow> Inr (case map_of kvs key of Some x \<Rightarrow> x | None \<Rightarrow> dflt)
      | _ \<Rightarrow> Inl AttributeError)"

definition py_items :: "pyval \<Rightarrow> error + dict" where
  "py_items v = (case v of PDict kvs \<Rightarrow> Inr kvs | _ \<Rightarrow> Inl AttributeError)"

text \<open>\<open>key in v\<close> with a string key: a key of a dictionary, an element of a list, a
  substring of a string.\<close>

definition py_in :: "string \<Rightarrow> pyval \<Rightarrow> error + bool" where
  "py_in key v =
     (case v of
        PDict kvs \<Rightarrow> Inr (key \<in> set (map fst kvs))
      | PList xs \<Rightarrow> Inr (PStr key \<in> set xs)
      | PStr s \<Rightarrow> Inr (sublist key s)
      | _ \<Rightarrow> Inl TypeError)"

text \<open>Truth of an \<open>Optional[int]\<close> and of an \<open>Optional[str]\<close>.\<close>

definition truthy_int :: "int option \<Rightarrow> bool" where
  "truthy_int x = (case x of None \<Rightarrow> False | Some n \<Rightarrow> n \<noteq> 0)"

definition truthy_str :: "string option \<Rightarrow> bool" where
  "truthy_str x = (case x of None \<Rightarrow> False | Some s \<Rightarrow> s \<noteq> [])"

section \<open>The models of \<open>types.py\<close>\<close>

record client =
  client_id :: int
  client_name :: string

record user =
  email :: string

record custom_field =
  cf_id :: int
  cf_name :: string
  cf_value :: string

record project_details =
  pd_id :: int
  pd_name :: string
  pd_client :: client
  pd_project_creation :: "string option"
  pd_created_at :: string
  pd_updated_at :: string
  pd_authors :: "user list"
  pd_owners :: "user list"
  pd_custom_fields :: "custom_field list option"

record create_project_data =
  cp_name :: string
  cp_team_id :: int
  cp_report_template_properties_id :: "int option"
  cp_author_ids :: "int list option"
  cp_template :: "string option"

record vulnerability =
  vu_id :: int
  vu_author :: string
  vu_title :: string
  vu_fields :: dict
  vu_text :: string
  vu_created_at :: string
  vu_updated_at :: string

record vulnerability_list_item =
  li_id :: int
  li_title :: string
  li_fields :: "(string \<times> string) list"

record content_block =
  cb_id :: int
  cb_author :: string
  cb_block_group :: string
  cb_title :: string
  cb_fields :: dict
  cb_content :: string

record update_content_block_data =
  ucb_block_group :: string
  ucb_content :: dict

text \<open>\<open>CreateProject.model_dump()\<close>.\<close>

definition opt_val :: "('a \<Rightarrow> pyval) \<Rightarrow> 'a option \<Rightarrow> pyval" where
  "opt_val f x = (case x of None \<Rightarrow> PNone | Some y \<Rightarrow> f y)"

definition model_dump :: "create_project_data \<Rightarrow> pyval" where
  "model_dump p = PDict
     [(''name'', PStr (cp_name p)),
      (''team_id'', PInt (cp_team_id p)),
      (''report_template_properties_id'', opt_val PInt (cp_report_template_properties_id p)),
      (''author_ids'', opt_val (\<lambda>ids. PList (map PInt ids)) (cp_author_ids p)),
      (''template'', opt_val PStr (cp_template p))]"

text \<open>\<open>UpdateContentBlock(block_group=..., content=...)\<close>: \<open>content\<close> is a
  \<open>Dict[str, str]\<close> with \<open>min_length=1\<close>.\<close>

definition UpdateContentBlock :: "string \<Rightarrow> dict \<Rightarrow> error + update_content_block_data" where
  "UpdateContentBlock block_group content =
     (if content = [] \<or> \<not> list_all (\<lambda>kv. is_str (snd kv)) content then Inl ValidationError
      else Inr \<lparr>ucb_block_group = block_group, ucb_content = content\<rparr>)"

section \<open>The environment: transport and response validation\<close>

text \<open>
  One request as \<open>DradisAPI._request\<close> hands it to the HTTP client, and what the client
  does with it: it raises (DNS, TLS, refused, timeout), or it returns a response with
  its \<open>is_success\<close> flag and its decoded JSON body (\<open>None\<close> when the body is not JSON).
\<close>

record http_request =
  req_method :: string
  req_url :: string
  req_project :: "string option"
  req_json :: "pyval option"

datatype outcome = Raised | Response bool "pyval option"

text \<open>
  The HTTP client with the upstream behind it (a state \<open>'u\<close> that every request may
  change) and the validating constructors of the response models are libraries outside
  the repository: they are parameters, and every theorem holds for all of them.
\<close>

record 'u env =
  client_request :: "'u \<Rightarrow> http_request \<Rightarrow> outcome \<times> 'u"
  ProjectDetails :: "pyval \<Rightarrow> error + project_details"
  Vulnerability :: "pyval \<Rightarrow> error + vulnerability"
  VulnerabilityListItem :: "pyval \<Rightarrow> pyval \<Rightarrow> pyval \<Rightarrow> error + vulnerability_list_item"
  ContentBlock :: "pyval \<Rightarrow> error + content_block"

section \<open>The session\<close>

record dradis_api =
  base_url :: string

record config =
  dradis_default_team_id :: "int option"
  dradis_default_template_id :: "int option"
  dradis_default_template :: "string option"

text \<open>\<open>server_state\<close>, together with the upstream's state and the requests sent so far.\<close>

record 'u world =
  project_id :: "int option"
  api :: "dradis_api option"
  config :: "config option"
  upstream :: 'u
  sent :: "http_request list"

definition then_do ::
  "(error + 'a) \<times> 's \<Rightarrow> ('a \<Rightarrow> 's \<Rightarrow> (error + 'b) \<times> 's) \<Rightarrow> (error + 'b) \<times> 's" where
  "then_do r f = (case r of (Inl err, s) \<Rightarrow> (Inl err, s) | (Inr x, s) \<Rightarrow> f x s)"

section \<open>\<open>DradisAPI\<close>\<close>

definition request ::
  "'u env \<Rightarrow> dradis_api \<Rightarrow> string \<Rightarrow> string \<Rightarrow> int option \<Rightarrow> pyval option \<Rightarrow>
   'u world \<Rightarrow> (error + pyval) \<times> 'u world" where
  "request e a method endpoint pid body w =
     (let req = \<lparr>req_method = method, req_url = base_url a @ endpoint,
                 req_project = map_option str_int pid, req_json = body\<rparr>;
          r = client_request e (upstream w) req;
          w' = w\<lparr>upstream := snd r, sent := sent w @ [req]\<rparr>
      in case fst r of
           Raised \<Rightarrow> (Inl NetworkError, w')
         | Response is_success js \<Rightarrow>
             if \<not> is_success then (Inl HTTPStatusError, w')
             else (case js of None \<Rightarrow> (Inl NetworkError, w') | Some j \<Rightarrow> (Inr j, w')))"


definition api_get_project_details ::
  "'u env \<Rightarrow> dradis_api \<Rightarrow> int \<Rightarrow> 'u world \<Rightarrow> (error + project_details) \<times> 'u world" where
  "api_get_project_details e a pid w =
     then_do (request e a ''GET'' (''/pro/api/projects/'' @ str_int pid) None None w)
       (\<lambda>response w'. (ProjectDetails e response, w'))"

definition api_create_project ::
  "'u env \<Rightarrow> dradis_api \<Rightarrow> create_project_data \<Rightarrow> 'u world \<Rightarrow>
   (error + project_details) \<times> 'u world" where
  "api_create_project e a project w =
     then_do (request e a ''POST'' ''/pro/api/projects'' None
                (Some (PDict [(''project'', model_dump project)])) w)
       (\<lambda>response w'. (ProjectDetails e response, w'))"

definition issues_endpoint :: "int option \<Rightarrow> string" where
  "issues_endpoint page =
     ''/pro/api/issues'' @ (if truthy_int page then ''?page='' @ str_int (the page) else [])"

definition api_get_vulnerabilities ::
  "'u env \<Rightarrow> dradis_api \<Rightarrow> int \<Rightarrow> int option \<Rightarrow> 'u world \<Rightarrow>
   (error + vulnerability_list_item list) \<times> 'u world" where
  "api_get_vulnerabilities e a pid page w =
     then_do (request e a ''GET'' (issues_endpoint page) (Some pid) None w)
       (\<lambda>response w'.
          (and_then (py_iter response)
             (map_err (\<lambda>vuln.
                and_then (subscript vuln ''id'') (\<lambda>i.
                and_then (subscript vuln ''title'') (\<lambda>t.
                and_then (subscript vuln ''fields'') (\<lambda>fs.
                and_then (py_get fs ''Rating'' (PStr [])) (\<lambda>r.
                  VulnerabilityListItem e i t (PDict [(''Rating'', r)]))))))),
           w'))"

definition api_get_all_vulnerability_details ::
  "'u env \<Rightarrow> dradis_api \<Rightarrow> int \<Rightarrow> int option \<Rightarrow> 'u world \<Rightarrow>
   (error + vulnerability_list_item list) \<times> 'u world" where
  "api_get_all_vulnerability_details e a pid page w =
     then_do (request e a ''GET'' (issues_endpoint page) (Some pid) None w)
       (\<lambda>response w'.
          (and_then (py_iter response)
             (map_err (\<lambda>vuln.
                and_then (subscript vuln ''id'') (\<lambda>i.
                and_then (subscript vuln ''title'') (\<lambda>t.
                and_then (subscript vuln ''fields'') (\<lambda>fs.
                  VulnerabilityListItem e i t fs))))),
           w'))"

definition api_get_vulnerability ::
  "'u env \<Rightarrow> dradis_api \<Rightarrow> int \<Rightarrow> int \<Rightarrow> 'u world \<Rightarrow> (error + dict) \<times> 'u world" where
  "api_get_vulnerability e a pid vulnerability_id w =
     then_do (request e a ''GET'' (''/pro/api/issues/'' @ str_int vulnerability_id) (Some pid) None w)
       (\<lambda>response w'.
          (and_then (subscript response ''id'') (\<lambda>i.
           and_then (subscript response ''author'') (\<lambda>au.
           and_then (subscript response ''fields'') (\<lambda>fs.
           and_then (py_items fs) (\<lambda>items.
             Inr (foldl (\<lambda>construction (key, val). dict_set construction key val)
                    [(''id'', i), (''author'', au)] items))))),
           w'))"

definition issue_body :: "string \<Rightarrow> pyval" where
  "issue_body txt = PDict [(''issue'', PDict [(''text'', PStr txt)])]"

definition api_create_vulnerability ::
  "'u env \<Rightarrow> dradis_api \<Rightarrow> int \<Rightarrow> dict \<Rightarrow> 'u world \<Rightarrow> (error + vulnerability) \<times> 'u world" where
  "api_create_vulnerability e a pid vulnerability w =
     (let compiled_vulnerability = construct_dradis_response vulnerability
      in then_do (request e a ''POST'' ''/pro/api/issues'' (Some pid)
                    (Some (issue_body compiled_vulnerability)) w)
           (\<lambda>response w'. (Vulnerability e response, w')))"

definition api_update_vulnerability ::
  "'u env \<Rightarrow> dradis_api \<Rightarrow> int \<Rightarrow> int \<Rightarrow> dict \<Rightarrow> 'u world \<Rightarrow>
   (error + vulnerability) \<times> 'u world" where
  "api_update_vulnerability e a pid issue_id vulnerability w =
     then_do (api_get_vulnerability e a pid issue_id w)
       (\<lambda>current_vuln w1.
          let updated_vulnerability = merge_update current_vuln vulnerability;
              dradis_construct = construct_dradis_response updated_vulnerability
          in then_do (request e a ''PUT'' (''/pro/api/issues/'' @ str_int issue_id) (Some pid)
                        (Some (issue_body dradis_construct)) w1)
               (\<lambda>response w2. (Vulnerability e response, w2)))"

definition api_get_content_blocks ::
  "'u env \<Rightarrow> dradis_api \<Rightarrow> int \<Rightarrow> 'u world \<Rightarrow> (error + dict list) \<times> 'u world" where
  "api_get_content_blocks e a pid w =
     then_do (request e a ''GET'' ''/pro/api/content_blocks'' (Some pid) None w)
       (\<lambda>response w'.
          (and_then (py_iter response)
             (map_err (\<lambda>block.
                and_then (subscript block ''id'') (\<lambda>i.
                and_then (subscript block ''fields'') (\<lambda>fs.
                  Inr [(''id'', i), (''fields'', fs)])))),
           w'))"

definition api_get_content_block ::
  "'u env \<Rightarrow> dradis_api \<Rightarrow> int \<Rightarrow> int \<Rightarrow> 'u world \<Rightarrow> (error + content_block) \<times> 'u world" where
  "api_get_content_block e a pid block_id w =
     then_do (request e a ''GET'' (''/pro/api/content_blocks/'' @ str_int block_id) (Some pid) None w)
       (\<lambda>response w'. (ContentBlock e response, w'))"

text \<open>The loop of \<open>update_content_block\<close> over \<open>content_block.content.items()\<close>.\<close>

fun update_fields :: "dict \<Rightarrow> dict \<Rightarrow> dict" where
  "update_fields flds [] = flds"
| "update_fields flds ((key, val) # rest) =
     update_fields (if is_str val then dict_set flds key val else flds) rest"

definition content_block_body :: "string \<Rightarrow> string \<Rightarrow> pyval" where
  "content_block_body block_group txt =
     PDict [(''content_block'', PDict [(''block_group'', PStr block_group), (''content'', PStr txt)])]"

definition api_update_content_block ::
  "'u env \<Rightarrow> dradis_api \<Rightarrow> int \<Rightarrow> int \<Rightarrow> update_content_block_data \<Rightarrow> 'u world \<Rightarrow>
   (error + content_block) \<times> 'u world" where
  "api_update_content_block e a pid block_id content_block w =
     then_do (api_get_content_block e a pid block_id w)
       (\<lambda>current_block w1.
          let flds = update_fields (cb_fields current_block) (ucb_content content_block);
              dradis_construct = construct_dradis_response flds
          in then_do (request e a ''PUT'' (''/pro/api/content_blocks/'' @ str_int block_id) (Some pid)
                        (Some (content_block_body (ucb_block_group content_block) dradis_construct)) w1)
               (\<lambda>response w2. (ContentBlock e response, w2)))"

definition api_get_document_properties ::
  "'u env \<Rightarrow> dradis_api \<Rightarrow> int \<Rightarrow> 'u world \<Rightarrow> (error + pyval) \<times> 'u world" where
  "api_get_document_properties e a pid w =
     request e a ''GET'' ''/pro/api/document_properties'' (Some pid) None w"

text \<open>\<open>any(property_name in prop and prop[property_name] is not None for prop in
  doc_properties)\<close>: \<open>any\<close> stops at the first true element.\<close>

fun any_property :: "string \<Rightarrow> pyval list \<Rightarrow> error + bool" where
  "any_property property_name [] = Inr False"
| "any_property property_name (prop # props) =
     and_then (py_in property_name prop) (\<lambda>present.
       if \<not> present then any_property property_name props
       else and_then (subscript prop property_name) (\<lambda>x.
              if x \<noteq> PNone then Inr True else any_property property_name props))"

definition property_exists :: "string \<Rightarrow> pyval \<Rightarrow> error + bool" where
  "property_exists property_name doc_properties =
     and_then (py_iter doc_properties) (any_property property_name)"

definition api_upsert_document_property ::
  "'u env \<Rightarrow> dradis_api \<Rightarrow> int \<Rightarrow> string \<Rightarrow> string \<Rightarrow> 'u world \<Rightarrow> (error + pyval) \<times> 'u world" where
  "api_upsert_document_property e a pid property_name val w =
     then_do (api_get_document_properties e a pid w)
       (\<lambda>doc_properties w1.
          case property_exists property_name doc_properties of
            Inl err \<Rightarrow> (Inl err, w1)
          | Inr exists \<Rightarrow>
              if exists
              then request e a ''PUT'' (''/pro/api/document_properties/'' @ property_name) (Some pid)
                     (Some (PDict [(''document_property'', PDict [(''value'', PStr val)])])) w1
              else request e a ''POST'' ''/pro/api/document_properties'' (Some pid)
                     (Some (PDict [(''document_properties'', PDict [(property_name, PStr val)])])) w1)"


section \<open>The tools of \<open>server.py\<close>\<close>

text \<open>
  Each tool returns the data that \<open>format_response\<close> renders as JSON text; the rendering
  and the fixed hints some tools add to it are left out.
\<close>

definition get_api :: "'u world \<Rightarrow> error + dradis_api" where
  "get_api w =
     (case api w of
        None \<Rightarrow> Inl (ValueError ''API not initialized. Check your configuration.'')
      | Some a \<Rightarrow> Inr a)"

definition get_config :: "'u world \<Rightarrow> error + config" where
  "get_config w =
     (case config w of
        None \<Rightarrow> Inl (ValueError ''Configuration not loaded.'')
      | Some c \<Rightarrow> Inr c)"

definition no_project :: error where
  "no_project = ValueError ''No project ID set. Use set_project or create_project first.''"

definition set_project :: "'u env \<Rightarrow> int \<Rightarrow> 'u world \<Rightarrow> (error + string) \<times> 'u world" where
  "set_project e pid w =
     (case get_api w of
        Inl err \<Rightarrow> (Inl err, w)
      | Inr a \<Rightarrow>
          then_do (api_get_project_details e a pid w)
            (\<lambda>_ w'. (Inr (''Project ID set to '' @ str_int pid), w'\<lparr>project_id := Some pid\<rparr>)))"

definition get_project_details :: "'u env \<Rightarrow> 'u world \<Rightarrow> (error + project_details) \<times> 'u world" where
  "get_project_details e w =
     (if \<not> truthy_int (project_id w) then (Inl no_project, w)
      else case get_api w of
        Inl err \<Rightarrow> (Inl err, w)
      | Inr a \<Rightarrow> api_get_project_details e a (the (project_id w)) w)"

definition create_project ::
  "'u env \<Rightarrow> string \<Rightarrow> int option \<Rightarrow> int option \<Rightarrow> int list option \<Rightarrow> string option \<Rightarrow>
   'u world \<Rightarrow> (error + string \<times> project_details) \<times> 'u world" where
  "create_project e name team_id report_template_properties_id author_ids template w =
     (case get_api w of
        Inl err \<Rightarrow> (Inl err, w)
      | Inr a \<Rightarrow>
     (case get_config w of
        Inl err \<Rightarrow> (Inl err, w)
      | Inr c \<Rightarrow>
          let team_id1 = (if team_id = None \<and> truthy_int (dradis_default_team_id c)
                          then dradis_default_team_id c else team_id);
              report_template_properties_id1 =
                (if report_template_properties_id = None \<and> truthy_int (dradis_default_template_id c)
                 then dradis_default_template_id c else report_template_properties_id);
              template1 = (if template = None \<and> truthy_str (dradis_default_template c)
                           then dradis_default_template c else template)
          in case team_id1 of
               None \<Rightarrow> (Inl (ValueError ''team_id is required and DRADIS_DEFAULT_TEAM_ID is not set''), w)
             | Some team \<Rightarrow>
                 let project_data = \<lparr>cp_name = name, cp_team_id = team,
                       cp_report_template_properties_id = report_template_properties_id1,
                       cp_author_ids = author_ids, cp_template = template1\<rparr>
                 in then_do (api_create_project e a project_data w)
                      (\<lambda>project w'.
                         (Inr (''Project created successfully with ID '' @ str_int (pd_id project), project),
                          w'\<lparr>project_id := Some (pd_id project)\<rparr>))))"

text \<open>\<open>{k: str(v) for k, v in kwargs.items() if v is not None}\<close>.\<close>

definition non_null_as_text :: "dict \<Rightarrow> dict" where
  "non_null_as_text kwargs =
     map (\<lambda>(k, v). (k, PStr (py_str v))) (filter (\<lambda>(k, v). v \<noteq> PNone) kwargs)"

definition create_vulnerability ::
  "'u env \<Rightarrow> dict \<Rightarrow> 'u world \<Rightarrow> (error + string \<times> vulnerability) \<times> 'u world" where
  "create_vulnerability e kwargs w =
     (if \<not> truthy_int (project_id w) then (Inl no_project, w)
      else case get_api w of
        Inl err \<Rightarrow> (Inl err, w)
      | Inr a \<Rightarrow>
          let vulnerability_data = non_null_as_text kwargs
          in then_do (api_create_vulnerability e a (the (project_id w)) vulnerability_data w)
               (\<lambda>result w'. (Inr (''Vulnerability created successfully'', result), w')))"

record vulnerability_page =
  vp_page :: int
  vp_items_per_page :: int
  vp_vulnerabilities :: "vulnerability_list_item list"

definition page_result :: "int option \<Rightarrow> vulnerability_list_item list \<Rightarrow> vulnerability_page" where
  "page_result page vulnerabilities =
     \<lparr>vp_page = (if truthy_int page then the page else 1), vp_items_per_page = 25,
      vp_vulnerabilities = vulnerabilities\<rparr>"

definition get_vulnerabilities ::
  "'u env \<Rightarrow> int option \<Rightarrow> 'u world \<Rightarrow> (error + vulnerability_page) \<times> 'u world" where
  "get_vulnerabilities e page w =
     (if \<not> truthy_int (project_id w) then (Inl no_project, w)
      else case get_api w of
        Inl err \<Rightarrow> (Inl err, w)
      | Inr a \<Rightarrow>
          then_do (api_get_vulnerabilities e a (the (project_id w)) page w)
            (\<lambda>vulnerabilities w'. (Inr (page_result page vulnerabilities), w')))"

definition get_all_vulnerability_details ::
  "'u env \<Rightarrow> int option \<Rightarrow> 'u world \<Rightarrow> (error + vulnerability_page) \<times> 'u world" where
  "get_all_vulnerability_details e page w =
     (if \<not> truthy_int (project_id w) then (Inl no_project, w)
      else case get_api w of
        Inl err \<Rightarrow> (Inl err, w)
      | Inr a \<Rightarrow>
          then_do (api_get_all_vulnerability_details e a (the (project_id w)) page w)
            (\<lambda>vulnerabilities w'. (Inr (page_result page vulnerabilities), w')))"

definition get_vulnerability :: "'u env \<Rightarrow> int \<Rightarrow> 'u world \<Rightarrow> (error + dict) \<times> 'u world" where
  "get_vulnerability e vulnerability_id w =
     (if \<not> truthy_int (project_id w) then (Inl no_project, w)
      else case get_api w of
        Inl err \<Rightarrow> (Inl err, w)
      | Inr a \<Rightarrow> api_get_vulnerability e a (the (project_id w)) vulnerability_id w)"

definition update_vulnerability ::
  "'u env \<Rightarrow> int \<Rightarrow> dict \<Rightarrow> 'u world \<Rightarrow> (error + string \<times> vulnerability) \<times> 'u world" where
  "update_vulnerability e issue_id kwargs w =
     (if \<not> truthy_int (project_id w) then (Inl no_project, w)
      else case get_api w of
        Inl err \<Rightarrow> (Inl err, w)
      | Inr a \<Rightarrow>
          let update_data = non_null_as_text kwargs
          in then_do (api_update_vulnerability e a (the (project_id w)) issue_id update_data w)
               (\<lambda>result w'. (Inr (''Vulnerability updated successfully'', result), w')))"

definition get_content_blocks :: "'u env \<Rightarrow> 'u world \<Rightarrow> (error + dict list) \<times> 'u world" where
  "get_content_blocks e w =
     (if \<not> truthy_int (project_id w) then (Inl no_project, w)
      else case get_api w of
        Inl err \<Rightarrow> (Inl err, w)
      | Inr a \<Rightarrow> api_get_content_blocks e a (the (project_id w)) w)"

definition update_content_block ::
  "'u env \<Rightarrow> int \<Rightarrow> string \<Rightarrow> dict \<Rightarrow> 'u world \<Rightarrow> (error + content_block) \<times> 'u world" where
  "update_content_block e block_id block_group content w =
     (if \<not> truthy_int (project_id w) then (Inl no_project, w)
      else case get_api w of
        Inl err \<Rightarrow> (Inl err, w)
      | Inr a \<Rightarrow>
          (case UpdateContentBlock block_group content of
             Inl err \<Rightarrow> (Inl err, w)
           | Inr content_block_update \<Rightarrow>
               api_update_content_block e a (the (project_id w)) block_id content_block_update w))"

definition get_document_properties :: "'u env \<Rightarrow> 'u world \<Rightarrow> (error + pyval) \<times> 'u world" where
  "get_document_properties e w =
     (if \<not> truthy_int (project_id w) then (Inl no_project, w)
      else case get_api w of
        Inl err \<Rightarrow> (Inl err, w)
      | Inr a \<Rightarrow> api_get_document_properties e a (the (project_id w)) w)"

definition upsert_document_property ::
  "'u env \<Rightarrow> string \<Rightarrow> string \<Rightarrow> 'u world \<Rightarrow> (error + pyval) \<times> 'u world" where
  "upsert_document_property e property_name val w =
     (if \<not> truthy_int (project_id w) then (Inl no_project, w)
      else case get_api w of
        Inl err \<Rightarrow> (Inl err, w)
      | Inr a \<Rightarrow> api_upsert_document_property e a (the (project_id w)) property_name val w)"

section \<open>Notions used in the statements\<close>

text \<open>
  The marker of a field is its name between the two-character delimiters \<open>#[\<close> and
  \<open>]#\<close>. Occurrences of a marker in a text are counted by its delimiters:
  \<open>count_pair a b s\<close> is the number of positions of \<open>s\<close> where \<open>a\<close> is followed by \<open>b\<close>.
\<close>

fun count_pair :: "char \<Rightarrow> char \<Rightarrow> string \<Rightarrow> nat" where
  "count_pair a b (x # y # zs) = (if x = a \<and> y = b then 1 else 0) + count_pair a b (y # zs)"
| "count_pair a b [x] = 0"
| "count_pair a b [] = 0"

definition marker_opens :: "string \<Rightarrow> nat" where
  "marker_opens s = count_pair (CHR ''#'') (CHR ''['') s"

definition marker_closes :: "string \<Rightarrow> nat" where
  "marker_closes s = count_pair (CHR '']'') (CHR ''#'') s"

definition marker_free :: "string \<Rightarrow> bool" where
  "marker_free s = (marker_opens s = 0 \<and> marker_closes s = 0)"

section \<open>Example sessions\<close>

definition example_api :: dradis_api where
  "example_api = \<lparr>base_url = ''https://dradis.example''\<rparr>"

definition example_config :: config where
  "example_config = \<lparr>dradis_default_team_id = None, dradis_default_template_id = None,
                      dradis_default_template = None\<rparr>"

text \<open>A session right after start: client and configuration loaded, no project set,
  nothing sent.\<close>

definition example_world :: "unit world" where
  "example_world = \<lparr>project_id = None, api = Some example_api, config = Some example_config,
                     upstream = (), sent = []\<rparr>"

definition example_project :: "int \<Rightarrow> project_details" where
  "example_project i =
     \<lparr>pd_id = i, pd_name = ''demo'', pd_client = \<lparr>client_id = 1, client_name = ''acme''\<rparr>,
      pd_project_creation = None, pd_created_at = ''2024-01-01'', pd_updated_at = ''2024-01-01'',
      pd_authors = [], pd_owners = [], pd_custom_fields = None\<rparr>"

text \<open>Validating constructors for the examples: they read the one entry the example needs.\<close>

definition read_project :: "pyval \<Rightarrow> error + project_details" where
  "read_project r =
     (case subscript r ''id'' of Inr (PInt i) \<Rightarrow> Inr (example_project i) | _ \<Rightarrow> Inl ValidationError)"

definition read_block :: "pyval \<Rightarrow> error + content_block" where
  "read_block r =
     (case subscript r ''fields'' of
        Inr (PDict fs) \<Rightarrow>
          Inr \<lparr>cb_id = 5, cb_author = ''bob'', cb_block_group = ''Conclusions'',
               cb_title = ''Summary'', cb_fields = fs, cb_content = []\<rparr>
      | _ \<Rightarrow> Inl ValidationError)"

text \<open>An upstream that gives the same answer to every request.\<close>

definition example_env :: "outcome \<Rightarrow> unit env" where
  "example_env out =
     \<lparr>client_request = (\<lambda>u req. (out, u)),
      ProjectDetails = read_project,
      Vulnerability = (\<lambda>r. Inl ValidationError),
      VulnerabilityListItem = (\<lambda>i t f. Inl ValidationError),
      ContentBlock = read_block\<rparr>"

definition not_found_env :: "unit env" where
  "not_found_env = example_env (Response False None)"

definition project_env :: "int \<Rightarrow> unit env" where
  "project_env i = example_env (Response True (Some (PDict [(''id'', PInt i)])))"

definition null_owner_env :: "unit env" where
  "null_owner_env = example_env (Response True (Some (PList (map PDict [[(''owner'', PNone)]]))))"

definition block_env :: "unit env" where
  "block_env = example_env (Response True (Some (PDict
     [(''id'', PInt 5),
      (''fields'', PDict [(''Title'', PStr ''Summary''), (''Notes'', PStr ''old'')])])))"

definition issue_env :: "unit env" where
  "issue_env = example_env (Response True (Some (PDict
     [(''id'', PInt 9), (''author'', PStr ''bob''),
      (''fields'', PDict [(''Title'', PStr ''Old''), (''Severity'', PStr ''High'')])])))"

section \<open>Lemmas on dictionaries, the encoder and the merge\<close>

lemma map_of_dict_set: "map_of (dict_set d k v) k' = (if k' = k then Some v else map_of d k')"
  by (induction d) auto

lemma dict_set_mem: "(k, v) \<in> set (dict_set d k v)"
  by (induction d) auto

lemma dict_set_keeps: "(k, v) \<in> set d \<Longrightarrow> k' \<noteq> k \<Longrightarrow> (k, v) \<in> set (dict_set d k' v')"
  by (induction d) auto

lemma update_test_iff: "update_test v \<longleftrightarrow> v \<noteq> PNone"
  by (auto simp: update_test_def)

lemma map_of_merge_update:
  "distinct (map fst U) \<Longrightarrow>
   map_of (merge_update S U) k =
     (case map_of U k of
        Some v \<Rightarrow> if update_test v then Some v else map_of S k
      | None \<Rightarrow> map_of S k)"
proof (induction U arbitrary: S)
  case Nil
  then show ?case by simp
next
  case (Cons kv U)
  obtain k' v' where kv: "kv = (k', v')" by (cases kv)
  from Cons.prems kv have d: "distinct (map fst U)" and "k' \<notin> fst ` set U" by auto
  then have none: "map_of U k' = None" by (simp add: map_of_eq_None_iff)
  show ?case
    using Cons.IH [OF d] none kv
    by (auto simp: map_of_dict_set split: option.splits)
qed

lemma construct_concat:
  "construct_dradis_response data = concat (map (\<lambda>(key, val). field_block key val) data)"
proof -
  have "foldl (\<lambda>construction (key, val). construction @ field_block key val) acc data =
        acc @ concat (map (\<lambda>(key, val). field_block key val) data)" for acc
    by (induction data arbitrary: acc) auto
  then show ?thesis by (simp add: construct_dradis_response_def)
qed

lemma count_pair_append:
  "count_pair a b (xs @ ys) =
     count_pair a b xs + count_pair a b ys +
     (if xs \<noteq> [] \<and> ys \<noteq> [] \<and> last xs = a \<and> hd ys = b then 1 else 0)"
proof (induction a b xs rule: count_pair.induct)
  case (1 a b x y zs)
  then show ?case by simp
next
  case (2 a b x)
  then show ?case by (cases ys) auto
next
  case (3 a b)
  then show ?case by simp
qed

lemma count_pair_Cons:
  "count_pair a b (x # ys) =
     count_pair a b ys + (if ys \<noteq> [] \<and> x = a \<and> hd ys = b then 1 else 0)"
  by (cases ys) auto

lemma opens_block:
  "marker_opens (field_block k v @ rest) =
     1 + marker_opens k + marker_opens (py_str v) + marker_opens rest"
  unfolding marker_opens_def field_block_def crlf_def
  by (simp add: count_pair_append count_pair_Cons)

lemma closes_block:
  "marker_closes (field_block k v @ rest) =
     1 + marker_closes k + marker_closes (py_str v) + marker_closes rest"
  unfolding marker_closes_def field_block_def crlf_def
  by (simp add: count_pair_append count_pair_Cons)

lemma opens_construct:
  "marker_opens (construct_dradis_response M) =
     length M + (\<Sum>(k, v)\<leftarrow>M. marker_opens k + marker_opens (py_str v))"
  unfolding construct_concat
proof (induction M)
  case Nil
  show ?case by (simp add: marker_opens_def)
next
  case (Cons kv M)
  then show ?case by (cases kv) (simp add: opens_block)
qed

lemma closes_construct:
  "marker_closes (construct_dradis_response M) =
     length M + (\<Sum>(k, v)\<leftarrow>M. marker_closes k + marker_closes (py_str v))"
  unfolding construct_concat
proof (induction M)
  case Nil
  show ?case by (simp add: marker_closes_def)
next
  case (Cons kv M)
  then show ?case by (cases kv) (simp add: closes_block)
qed

lemma construct_suffix:
  "M \<noteq> [] \<Longrightarrow> suffix (crlf @ crlf) (construct_dradis_response M)"
  unfolding construct_concat
proof (induction M rule: rev_induct)
  case Nil
  then show ?case by simp
next
  case (snoc kv M)
  obtain k v where "kv = (k, v)" by (cases kv)
  then have "concat (map (\<lambda>(key, val). field_block key val) (M @ [kv])) =
      (concat (map (\<lambda>(key, val). field_block key val) M) @ ''#['' @ k @ '']#'' @ crlf @ py_str v)
      @ crlf @ crlf"
    by (simp add: field_block_def)
  then show ?case by (metis suffixI)
qed

lemma block_sublist:
  assumes "(k, v) \<in> set d"
  shows "sublist (field_block k v) (construct_dradis_response d)"
proof -
  from assms obtain ys zs where "d = ys @ (k, v) # zs" by (meson split_list)
  then have "construct_dradis_response d =
      construct_dradis_response ys @ field_block k v @ construct_dradis_response zs"
    by (simp add: construct_concat)
  then show ?thesis by (metis sublist_appendI)
qed

lemma non_null_blocks:
  "construct_dradis_response (non_null_as_text kwargs) =
     concat (map (\<lambda>(k, v). ''#['' @ k @ '']#'' @ crlf @ py_str v @ crlf @ crlf)
               (filter (\<lambda>(k, v). v \<noteq> PNone) kwargs))"
  unfolding construct_concat non_null_as_text_def
  by (induction kwargs) (auto simp: field_block_def py_str_def)

lemma map_of_update_fields:
  "list_all (\<lambda>kv. is_str (snd kv)) C \<Longrightarrow> distinct (map fst C) \<Longrightarrow>
   map_of (update_fields flds C) k =
     (case map_of C k of Some v \<Rightarrow> Some v | None \<Rightarrow> map_of flds k)"
proof (induction C arbitrary: flds)
  case Nil
  then show ?case by simp
next
  case (Cons kv C)
  obtain k' v' where kv: "kv = (k', v')" by (cases kv)
  from Cons.prems kv have "map_of C k' = None" by (simp add: map_of_eq_None_iff)
  with Cons kv show ?case by (auto simp: map_of_dict_set split: option.splits)
qed

lemma update_fields_keeps:
  "(k, v) \<in> set flds \<Longrightarrow> k \<notin> fst ` set C \<Longrightarrow> (k, v) \<in> set (update_fields flds C)"
proof (induction C arbitrary: flds)
  case Nil
  then show ?case by simp
next
  case (Cons kv C)
  obtain k' v' where kv: "kv = (k', v')" by (cases kv)
  with Cons.prems have "k' \<noteq> k" and "k \<notin> fst ` set C" by auto
  with Cons kv show ?case by (simp add: dict_set_keeps)
qed

lemma update_fields_mem:
  "(k, v) \<in> set C \<Longrightarrow> list_all (\<lambda>kv. is_str (snd kv)) C \<Longrightarrow> distinct (map fst C) \<Longrightarrow>
   (k, v) \<in> set (update_fields flds C)"
proof (induction C arbitrary: flds)
  case Nil
  then show ?case by simp
next
  case (Cons kv C)
  obtain k' v' where kv: "kv = (k', v')" by (cases kv)
  show ?case
  proof (cases "(k, v) = (k', v')")
    case True
    with Cons.prems kv have "k \<notin> fst ` set C" and "is_str v" by auto
    with True kv show ?thesis by (simp add: update_fields_keeps dict_set_mem)
  next
    case False
    with Cons kv show ?thesis by auto
  qed
qed

lemma any_property_dicts:
  "any_property n (map PDict L) = Inr (\<exists>d \<in> set L. \<exists>x. map_of d n = Some x \<and> x \<noteq> PNone)"
proof (induction L)
  case Nil
  show ?case by simp
next
  case (Cons d L)
  show ?case
  proof (cases "map_of d n")
    case None
    then have "n \<notin> set (map fst d)" by (simp add: map_of_eq_None_iff)
    with None Cons show ?thesis by (simp add: py_in_def and_then_def)
  next
    case (Some x)
    then have "n \<in> set (map fst d)" by (metis map_of_eq_None_iff option.distinct(1) set_map)
    with Some Cons show ?thesis by (auto simp: py_in_def and_then_def subscript_def)
  qed
qed

section \<open>Lemmas on requests and the session\<close>

lemma then_do_snd_pure: "snd (then_do r (\<lambda>x s. (f x, s))) = snd r"
  by (cases r) (auto simp: then_do_def split: sum.splits)

lemma request_session:
  "project_id (snd (request e a m ep pid body w)) = project_id w"
  "api (snd (request e a m ep pid body w)) = api w"
  "config (snd (request e a m ep pid body w)) = config w"
  by (simp_all add: request_def Let_def split: outcome.splits option.splits)

lemma request_sent:
  "sent (snd (request e a m ep pid body w)) =
     sent w @ [\<lparr>req_method = m, req_url = base_url a @ ep,
                req_project = map_option str_int pid, req_json = body\<rparr>]"
  by (simp add: request_def Let_def split: outcome.splits option.splits)

lemma api_get_project_details_session:
  "api_get_project_details e a p w = (r, w') \<Longrightarrow>
   project_id w' = project_id w \<and> api w' = api w \<and> config w' = config w"
  using request_session [of e a "''GET''" "''/pro/api/projects/'' @ str_int p" None None w]
  by (auto simp: api_get_project_details_def then_do_def split: prod.splits sum.splits)

lemma api_create_project_result:
  assumes "api_create_project e a pd w = (r, w1)"
  shows "project_id w1 = project_id w \<and> api w1 = api w \<and> config w1 = config w \<and>
         sent w1 = sent w @ [\<lparr>req_method = ''POST'', req_url = base_url a @ ''/pro/api/projects'',
                               req_project = None,
                               req_json = Some (PDict [(''project'', model_dump pd)])\<rparr>]"
proof -
  let ?rq = "request e a ''POST'' ''/pro/api/projects'' None
               (Some (PDict [(''project'', model_dump pd)])) w"
  have "w1 = snd ?rq"
    using assms by (auto simp: api_create_project_def then_do_def split: prod.splits sum.splits)
  then show ?thesis by (simp add: request_session request_sent)
qed

lemma api_create_vulnerability_sent:
  "sent (snd (api_create_vulnerability e a p d w)) =
     sent w @ [\<lparr>req_method = ''POST'', req_url = base_url a @ ''/pro/api/issues'',
                req_project = Some (str_int p),
                req_json = Some (issue_body (construct_dradis_response d))\<rparr>]"
proof -
  let ?rq = "request e a ''POST'' ''/pro/api/issues'' (Some p)
               (Some (issue_body (construct_dradis_response d))) w"
  have "snd (api_create_vulnerability e a p d w) = snd ?rq"
    by (cases ?rq) (auto simp: api_create_vulnerability_def then_do_def split: sum.splits)
  then show ?thesis by (simp add: request_sent)
qed

lemma guards:
  assumes "\<not> truthy_int (project_id w)"
  shows "get_project_details e w = (Inl no_project, w)"
    and "create_vulnerability e kwargs w = (Inl no_project, w)"
    and "get_vulnerabilities e page w = (Inl no_project, w)"
    and "get_all_vulnerability_details e page w = (Inl no_project, w)"
    and "get_vulnerability e vid w = (Inl no_project, w)"
    and "update_vulnerability e iid kwargs w = (Inl no_project, w)"
    and "get_content_blocks e w = (Inl no_project, w)"
    and "update_content_block e bid grp content w = (Inl no_project, w)"
    and "get_document_properties e w = (Inl no_project, w)"
    and "upsert_document_property e n v w = (Inl no_project, w)"
  using assms
  by (simp_all add: get_project_details_def create_vulnerability_def get_vulnerabilities_def
      get_all_vulnerability_details_def get_vulnerability_def update_vulnerability_def
      get_content_blocks_def update_content_block_def get_document_properties_def
      upsert_document_property_def)

lemma tools_with_project:
  assumes "project_id w = Some p" and "p \<noteq> 0" and "api w = Some a"
  shows "get_project_details e w = api_get_project_details e a p w"
    and "create_vulnerability e kwargs w =
       then_do (api_create_vulnerability e a p (non_null_as_text kwargs) w)
         (\<lambda>result w'. (Inr (''Vulnerability created successfully'', result), w'))"
    and "get_vulnerabilities e page w =
       then_do (api_get_vulnerabilities e a p page w)
         (\<lambda>vulnerabilities w'. (Inr (page_result page vulnerabilities), w'))"
    and "get_all_vulnerability_details e page w =
       then_do (api_get_all_vulnerability_details e a p page w)
         (\<lambda>vulnerabilities w'. (Inr (page_result page vulnerabilities), w'))"
    and "get_vulnerability e vid w = api_get_vulnerability e a p vid w"
    and "update_vulnerability e iid kwargs w =
       then_do (api_update_vulnerability e a p iid (non_null_as_text kwargs) w)
         (\<lambda>result w'. (Inr (''Vulnerability updated successfully'', result), w'))"
    and "get_content_blocks e w = api_get_content_blocks e a p w"
    and "update_content_block e bid grp content w =
       (case UpdateContentBlock grp content of
          Inl err \<Rightarrow> (Inl err, w)
        | Inr upd \<Rightarrow> api_update_content_block e a p bid upd w)"
    and "get_document_properties e w = api_get_document_properties e a p w"
    and "upsert_document_property e n v w = api_upsert_document_property e a p n v w"
  using assms
  by (simp_all add: get_project_details_def create_vulnerability_def get_vulnerabilities_def
      get_all_vulnerability_details_def get_vulnerability_def update_vulnerability_def
      get_content_blocks_def update_content_block_def get_document_properties_def
      upsert_document_property_def truthy_int_def get_api_def split: sum.splits)

section \<open>The merge of \<open>update_vulnerability\<close>\<close>

text \<open>
  C1. The claim: the merge overwrites the snapshot's entry for a key exactly when the
  update's value is a string whose stripped form is not empty, or is neither \<open>None\<close> nor a
  string; a blank or whitespace-only string leaves the snapshot's value in place, so that
  \<open>{Title: Old, Severity: High}\<close> merged with \<open>{Title: New, Severity: "", Owner: alice}\<close> is
  \<open>{Title: New, Severity: High, Owner: alice}\<close>. The source's comment says the same
  (``only update defined non-empty values''), but its test ends in \<open>or value is not None\<close>,
  which every string passes: at the claim's own example the merge writes the empty string
  over \<open>High\<close>, and a whitespace-only string passes the test as well. The same update
  through the tool \<open>update_vulnerability\<close>, on an issue fetched with these two fields, sends
  \<open>Severity\<close> as an empty field.
\<close>

theorem merge_update_blank_overwrites:
  "merge_update [(''Title'', PStr ''Old''), (''Severity'', PStr ''High'')]
     [(''Title'', PStr ''New''), (''Severity'', PStr []), (''Owner'', PStr ''alice'')] =
   [(''Title'', PStr ''New''), (''Severity'', PStr []), (''Owner'', PStr ''alice'')] \<and>
   update_test (PStr []) \<and> update_test (PStr ''  '') \<and>
   map (\<lambda>r. (req_method r, req_json r))
     (sent (snd (update_vulnerability issue_env 9
        [(''Title'', PStr ''New''), (''Severity'', PStr []), (''Owner'', PStr ''alice'')]
        (example_world\<lparr>project_id := Some 3\<rparr>)))) =
   [(''GET'', None),
    (''PUT'', Some (PDict [(''issue'', PDict [(''text'', PStr
       (''#[id]#'' @ crlf @ ''9'' @ crlf @ crlf @
        ''#[author]#'' @ crlf @ ''bob'' @ crlf @ crlf @
        ''#[Title]#'' @ crlf @ ''New'' @ crlf @ crlf @
        ''#[Severity]#'' @ crlf @ crlf @ crlf @
        ''#[Owner]#'' @ crlf @ ''alice'' @ crlf @ crlf))])]))]"
  by (simp add: update_test_def update_vulnerability_def truthy_int_def get_api_def
      example_world_def example_api_def non_null_as_text_def py_str_def
      api_update_vulnerability_def api_get_vulnerability_def then_do_def request_def
      issue_env_def example_env_def and_then_def subscript_def py_items_def
      construct_dradis_response_def field_block_def issue_body_def crlf_def
      str_int_def digits.simps digit_char_def)

text \<open>
  C7. The merge is key-wise independent: the merged value at a key \<open>k\<close> is determined by the
  snapshot's entry for \<open>k\<close> and the update's entry for \<open>k\<close> (or their absence). Two
  snapshots and two updates that agree at \<open>k\<close> give the same result at \<open>k\<close>, whatever their
  other keys are. (The dictionaries of the source have unique keys.)
\<close>

theorem merge_update_keywise:
  assumes "distinct (map fst U)" and "distinct (map fst U')"
    and "map_of S k = map_of S' k" and "map_of U k = map_of U' k"
  shows "map_of (merge_update S U) k = map_of (merge_update S' U') k"
  using assms by (simp add: map_of_merge_update split: option.splits)

theorem merge_update_keywise_witness:
  "distinct (map fst [(''Title'', PStr ''New''), (''Owner'', PStr ''alice'')]) \<and>
   distinct (map fst [(''CVE'', PNone), (''Title'', PStr ''New'')]) \<and>
   map_of (merge_update [(''Title'', PStr ''Old''), (''Severity'', PStr ''High'')]
             [(''Title'', PStr ''New''), (''Owner'', PStr ''alice'')]) ''Title'' = Some (PStr ''New'') \<and>
   map_of (merge_update [(''Rating'', PInt 3), (''Title'', PStr ''Old'')]
             [(''CVE'', PNone), (''Title'', PStr ''New'')]) ''Title'' = Some (PStr ''New'')"
  using merge_update_keywise
    [of "[(''Title'', PStr ''New''), (''Owner'', PStr ''alice'')]"
        "[(''CVE'', PNone), (''Title'', PStr ''New'')]"
        "[(''Title'', PStr ''Old''), (''Severity'', PStr ''High'')]" "''Title''"
        "[(''Rating'', PInt 3), (''Title'', PStr ''Old'')]"]
  by (simp add: update_test_def)

section \<open>The encoder\<close>

text \<open>
  C2, as amended. For every field mapping \<open>M\<close> the encoder produces exactly the
  concatenation, in mapping order, of \<open>#[name]#\<close>, one CRLF, the text of the value and two
  CRLF, for each entry. When no name and no value text of \<open>M\<close> contains a delimiter of the
  marker (\<open>#[\<close> or \<open>]#\<close>), the block contains exactly \<open>len(M)\<close> markers; the encoder does not
  escape, so a name or a value text that contains a marker adds to the count. A non-empty
  \<open>M\<close> gives a block that ends with two CRLF. The encoder is a total function.
\<close>

theorem construct_dradis_response_blocks:
  "construct_dradis_response M =
     concat (map (\<lambda>(k, v). ''#['' @ k @ '']#'' @ crlf @ py_str v @ crlf @ crlf) M) \<and>
   ((\<forall>(k, v) \<in> set M. marker_free k \<and> marker_free (py_str v)) \<longrightarrow>
      marker_opens (construct_dradis_response M) = length M \<and>
      marker_closes (construct_dradis_response M) = length M) \<and>
   (M \<noteq> [] \<longrightarrow> suffix (crlf @ crlf) (construct_dradis_response M))"
proof (intro conjI impI)
  show "construct_dradis_response M =
     concat (map (\<lambda>(k, v). ''#['' @ k @ '']#'' @ crlf @ py_str v @ crlf @ crlf) M)"
    by (simp add: construct_concat field_block_def)
next
  assume free: "\<forall>(k, v) \<in> set M. marker_free k \<and> marker_free (py_str v)"
  then have "(\<Sum>(k, v)\<leftarrow>M. marker_opens k + marker_opens (py_str v)) = 0"
    by (auto simp: marker_free_def)
  then show "marker_opens (construct_dradis_response M) = length M"
    by (simp add: opens_construct)
  from free have "(\<Sum>(k, v)\<leftarrow>M. marker_closes k + marker_closes (py_str v)) = 0"
    by (auto simp: marker_free_def)
  then show "marker_closes (construct_dradis_response M) = length M"
    by (simp add: closes_construct)
next
  assume "M \<noteq> []"
  then show "suffix (crlf @ crlf) (construct_dradis_response M)"
    by (rule construct_suffix)
qed

theorem construct_dradis_response_blocks_witness:
  "construct_dradis_response [(''Title'', PStr ''New''), (''Count'', PInt 3)] =
     ''#[Title]#'' @ crlf @ ''New'' @ crlf @ crlf @ ''#[Count]#'' @ crlf @ ''3'' @ crlf @ crlf \<and>
   marker_opens (construct_dradis_response [(''Title'', PStr ''New''), (''Count'', PInt 3)]) = 2 \<and>
   marker_closes (construct_dradis_response [(''Title'', PStr ''New''), (''Count'', PInt 3)]) = 2 \<and>
   suffix (crlf @ crlf) (construct_dradis_response [(''Title'', PStr ''New''), (''Count'', PInt 3)])"
  using construct_dradis_response_blocks [of "[(''Title'', PStr ''New''), (''Count'', PInt 3)]"]
  by (simp add: marker_free_def marker_opens_def marker_closes_def py_str_def str_int_def
      digits.simps digit_char_def crlf_def suffix_Cons)

text \<open>
  The claim as it was stated fails for a value that itself contains a marker: the
  one-entry mapping \<open>{a: "#[b]#"}\<close> encodes to a block with two markers.
\<close>

theorem construct_dradis_response_markers_counterexample:
  "marker_opens (construct_dradis_response [(''a'', PStr ''#[b]#'')]) = 2 \<and>
   marker_closes (construct_dradis_response [(''a'', PStr ''#[b]#'')]) = 2 \<and>
   length [(''a'', PStr ''#[b]#'')] = 1"
  by (simp add: construct_dradis_response_def field_block_def crlf_def py_str_def
      marker_opens_def marker_closes_def)

section \<open>The active project\<close>

text \<open>
  C3. If the read that \<open>set_project(p)\<close> issues fails (the request errors, the upstream
  answers with an error status, or the answer is not a project), then \<open>set_project\<close> raises
  that error and the session's project id is what it was before; if it was unset, a
  following \<open>get_project_details()\<close> fails with the error ``No project ID set''. The
  project id changes only when the read succeeds.
\<close>

theorem set_project_failed_read:
  "(api w = Some a \<longrightarrow> api_get_project_details e a p w = (Inl err, w') \<longrightarrow>
      set_project e p w = (Inl err, w') \<and> project_id w' = project_id w \<and>
      (project_id w = None \<longrightarrow> get_project_details e w' = (Inl no_project, w'))) \<and>
   (project_id (snd (set_project e p w)) \<noteq> project_id w \<longrightarrow>
      (\<exists>a d w1. api w = Some a \<and> api_get_project_details e a p w = (Inr d, w1)))"
proof (intro conjI impI)
  assume a: "api w = Some a" and f: "api_get_project_details e a p w = (Inl err, w')"
  show "set_project e p w = (Inl err, w')"
    using a f by (simp add: set_project_def get_api_def then_do_def)
  show same: "project_id w' = project_id w"
    using api_get_project_details_session [OF f] by simp
  show "get_project_details e w' = (Inl no_project, w')" if "project_id w = None"
    using that same by (simp add: guards truthy_int_def)
next
  assume ch: "project_id (snd (set_project e p w)) \<noteq> project_id w"
  show "\<exists>a d w1. api w = Some a \<and> api_get_project_details e a p w = (Inr d, w1)"
  proof (cases "api w")
    case None
    with ch show ?thesis by (simp add: set_project_def get_api_def)
  next
    case (Some a)
    obtain r w1 where r: "api_get_project_details e a p w = (r, w1)"
      by (cases "api_get_project_details e a p w")
    show ?thesis
    proof (cases r)
      case (Inl err)
      with ch Some r api_get_project_details_session [OF r] show ?thesis
        by (simp add: set_project_def get_api_def then_do_def)
    next
      case (Inr d)
      with Some r show ?thesis by blast
    qed
  qed
qed

text \<open>The scenario of the specification: project 42 does not exist upstream.\<close>

theorem set_project_failed_read_witness:
  "set_project not_found_env 42 example_world =
     (Inl HTTPStatusError,
      example_world\<lparr>sent := [\<lparr>req_method = ''GET'',
        req_url = ''https://dradis.example/pro/api/projects/42'',
        req_project = None, req_json = None\<rparr>]\<rparr>) \<and>
   project_id (snd (set_project not_found_env 42 example_world)) = None \<and>
   fst (get_project_details not_found_env (snd (set_project not_found_env 42 example_world))) =
     Inl no_project"
proof -
  let ?w' = "example_world\<lparr>sent := [\<lparr>req_method = ''GET'',
        req_url = ''https://dradis.example/pro/api/projects/42'',
        req_project = None, req_json = None\<rparr>]\<rparr>"
  have a: "api example_world = Some example_api"
    by (simp add: example_world_def)
  have f: "api_get_project_details not_found_env example_api 42 example_world =
             (Inl HTTPStatusError, ?w')"
    by (simp add: api_get_project_details_def then_do_def request_def not_found_env_def
        example_env_def example_world_def example_api_def str_int_def digits.simps digit_char_def)
  have n: "project_id example_world = None"
    by (simp add: example_world_def)
  from set_project_failed_read [of example_world example_api not_found_env 42 HTTPStatusError ?w']
    a f n
  show ?thesis by simp
qed

text \<open>
  C4. When the session's project id is unset, each project-scoped tool fails at once with
  the error ``No project ID set'' and leaves the session as it was: the upstream's state
  and the list of sent requests are part of the session, so no request is issued.
\<close>

theorem unset_project_no_request:
  assumes "project_id w = None"
  shows "get_project_details e w = (Inl no_project, w) \<and>
         create_vulnerability e kwargs w = (Inl no_project, w) \<and>
         get_vulnerabilities e page w = (Inl no_project, w) \<and>
         get_all_vulnerability_details e page w = (Inl no_project, w) \<and>
         get_vulnerability e vid w = (Inl no_project, w) \<and>
         update_vulnerability e iid kwargs' w = (Inl no_project, w) \<and>
         get_content_blocks e w = (Inl no_project, w) \<and>
         update_content_block e bid grp content w = (Inl no_project, w) \<and>
         get_document_properties e w = (Inl no_project, w) \<and>
         upsert_document_property e n v w = (Inl no_project, w)"
proof -
  from assms have "\<not> truthy_int (project_id w)"
    by (simp add: truthy_int_def)
  then show ?thesis
    by (simp add: guards)
qed

theorem unset_project_no_request_witness:
  "project_id example_world = None \<and>
   fst (get_project_details not_found_env example_world) = Inl no_project \<and>
   sent (snd (get_project_details not_found_env example_world)) = [] \<and>
   fst (upsert_document_property not_found_env ''owner'' ''bob'' example_world) = Inl no_project \<and>
   sent (snd (upsert_document_property not_found_env ''owner'' ''bob'' example_world)) = []"
proof -
  have n: "project_id example_world = None"
    by (simp add: example_world_def)
  from unset_project_no_request [OF n, where e = not_found_env and n = "''owner''" and v = "''bob''"] n
  show ?thesis by (simp add: example_world_def)
qed

text \<open>
  C8. A project id of 0 is the same as no project id: a successful \<open>set_project(0)\<close> stores
  0, and with 0 stored each project-scoped tool fails with the error of the unset
  session, ``No project ID set'', without a request; the guard tests the id for falsiness.
\<close>

theorem zero_project_id_unset:
  "(set_project e 0 w0 = (Inr m, w) \<longrightarrow> project_id w = Some 0) \<and>
   (project_id w = Some 0 \<longrightarrow>
      get_project_details e w = (Inl no_project, w) \<and>
      create_vulnerability e kwargs w = (Inl no_project, w) \<and>
      get_vulnerabilities e page w = (Inl no_project, w) \<and>
      get_all_vulnerability_details e page w = (Inl no_project, w) \<and>
      get_vulnerability e vid w = (Inl no_project, w) \<and>
      update_vulnerability e iid kwargs' w = (Inl no_project, w) \<and>
      get_content_blocks e w = (Inl no_project, w) \<and>
      update_content_block e bid grp content w = (Inl no_project, w) \<and>
      get_document_properties e w = (Inl no_project, w) \<and>
      upsert_document_property e n v w = (Inl no_project, w))"
proof (intro conjI impI)
  assume "set_project e 0 w0 = (Inr m, w)"
  then show "project_id w = Some 0"
    by (auto simp: set_project_def get_api_def then_do_def split: option.splits prod.splits sum.splits)
next
  assume "project_id w = Some 0"
  then have z: "\<not> truthy_int (project_id w)"
    by (simp add: truthy_int_def)
  show "get_project_details e w = (Inl no_project, w)"
    and "create_vulnerability e kwargs w = (Inl no_project, w)"
    and "get_vulnerabilities e page w = (Inl no_project, w)"
    and "get_all_vulnerability_details e page w = (Inl no_project, w)"
    and "get_vulnerability e vid w = (Inl no_project, w)"
    and "update_vulnerability e iid kwargs' w = (Inl no_project, w)"
    and "get_content_blocks e w = (Inl no_project, w)"
    and "update_content_block e bid grp content w = (Inl no_project, w)"
    and "get_document_properties e w = (Inl no_project, w)"
    and "upsert_document_property e n v w = (Inl no_project, w)"
    using z by (simp_all add: guards)
qed

text \<open>An upstream that has a project 0: \<open>set_project(0)\<close> succeeds, and the next
  \<open>get_project_details()\<close> fails as if nothing had been set.\<close>

theorem zero_project_id_unset_witness:
  "set_project (project_env 0) 0 example_world =
     (Inr ''Project ID set to 0'',
      example_world\<lparr>project_id := Some 0,
        sent := [\<lparr>req_method = ''GET'', req_url = ''https://dradis.example/pro/api/projects/0'',
                  req_project = None, req_json = None\<rparr>]\<rparr>) \<and>
   fst (get_project_details (project_env 0) (snd (set_project (project_env 0) 0 example_world))) =
     Inl no_project \<and>
   sent (snd (get_project_details (project_env 0) (snd (set_project (project_env 0) 0 example_world)))) =
     sent (snd (set_project (project_env 0) 0 example_world))"
proof -
  let ?w = "example_world\<lparr>project_id := Some 0,
        sent := [\<lparr>req_method = ''GET'', req_url = ''https://dradis.example/pro/api/projects/0'',
                  req_project = None, req_json = None\<rparr>]\<rparr>"
  have s: "set_project (project_env 0) 0 example_world = (Inr ''Project ID set to 0'', ?w)"
    by (simp add: set_project_def get_api_def api_get_project_details_def then_do_def request_def
        project_env_def example_env_def read_project_def subscript_def example_world_def
        example_api_def str_int_def digits.simps digit_char_def)
  from zero_project_id_unset [of "project_env 0" example_world "''Project ID set to 0''" ?w] s
  show ?thesis by simp
qed

text \<open>
  C10, as amended. Every successful \<open>create_project\<close> call stores the id of the created
  project as the session's project id, whatever was stored before, and sends one request
  only, the creating POST (no verifying read). When that id is not 0, the project-scoped
  tools that follow address the new project without a \<open>set_project\<close> call.
\<close>

theorem create_project_commits:
  assumes "create_project e name team_id rtp author_ids template w = (Inr (msg, project), w')"
  shows "project_id w' = Some (pd_id project) \<and>
    (\<exists>a body. api w' = Some a \<and>
       sent w' = sent w @ [\<lparr>req_method = ''POST'', req_url = base_url a @ ''/pro/api/projects'',
                              req_project = None, req_json = Some body\<rparr>] \<and>
       (pd_id project \<noteq> 0 \<longrightarrow>
          get_project_details e w' = api_get_project_details e a (pd_id project) w' \<and>
          create_vulnerability e kwargs w' =
            then_do (api_create_vulnerability e a (pd_id project) (non_null_as_text kwargs) w')
              (\<lambda>result s. (Inr (''Vulnerability created successfully'', result), s)) \<and>
          get_vulnerabilities e page w' =
            then_do (api_get_vulnerabilities e a (pd_id project) page w')
              (\<lambda>vulnerabilities s. (Inr (page_result page vulnerabilities), s)) \<and>
          get_vulnerability e vid w' = api_get_vulnerability e a (pd_id project) vid w' \<and>
          update_vulnerability e iid kwargs' w' =
            then_do (api_update_vulnerability e a (pd_id project) iid (non_null_as_text kwargs') w')
              (\<lambda>result s. (Inr (''Vulnerability updated successfully'', result), s)) \<and>
          get_content_blocks e w' = api_get_content_blocks e a (pd_id project) w' \<and>
          update_content_block e bid grp content w' =
            (case UpdateContentBlock grp content of
               Inl err \<Rightarrow> (Inl err, w')
             | Inr upd \<Rightarrow> api_update_content_block e a (pd_id project) bid upd w') \<and>
          get_document_properties e w' = api_get_document_properties e a (pd_id project) w' \<and>
          upsert_document_property e n v w' =
            api_upsert_document_property e a (pd_id project) n v w'))"
proof -
  from assms obtain a where a: "api w = Some a"
    by (cases "api w") (auto simp: create_project_def get_api_def)
  from assms a obtain c where c: "config w = Some c"
    by (cases "config w") (auto simp: create_project_def get_api_def get_config_def)
  from assms a c obtain pd w1 where
    call: "api_create_project e a pd w = (Inr project, w1)" and
    w': "w' = w1\<lparr>project_id := Some (pd_id project)\<rparr>"
    by (auto simp: create_project_def get_api_def get_config_def Let_def then_do_def
        split: option.splits prod.splits sum.splits if_splits)
  note r = api_create_project_result [OF call]
  have id: "project_id w' = Some (pd_id project)"
    using w' by simp
  have ap: "api w' = Some a"
    using w' r a by simp
  have snt: "sent w' = sent w @ [\<lparr>req_method = ''POST'',
      req_url = base_url a @ ''/pro/api/projects'', req_project = None,
      req_json = Some (PDict [(''project'', model_dump pd)])\<rparr>]"
    using w' r by simp
  show ?thesis
    using id ap snt tools_with_project [OF id _ ap, of e] by blast
qed

theorem create_project_commits_witness:
  "fst (create_project (project_env 12) ''demo'' (Some 1) None None None
          (example_world\<lparr>project_id := Some 3\<rparr>)) =
     Inr (''Project created successfully with ID 12'', example_project 12) \<and>
   project_id (snd (create_project (project_env 12) ''demo'' (Some 1) None None None
          (example_world\<lparr>project_id := Some 3\<rparr>))) = Some 12 \<and>
   map req_method (sent (snd (create_project (project_env 12) ''demo'' (Some 1) None None None
          (example_world\<lparr>project_id := Some 3\<rparr>)))) = [''POST''] \<and>
   map req_project (sent (snd (get_document_properties (project_env 12)
     (snd (create_project (project_env 12) ''demo'' (Some 1) None None None
          (example_world\<lparr>project_id := Some 3\<rparr>)))))) = [None, Some ''12'']"
proof -
  let ?body = "PDict [(''project'', PDict [(''name'', PStr ''demo''), (''team_id'', PInt 1),
      (''report_template_properties_id'', PNone), (''author_ids'', PNone), (''template'', PNone)])]"
  let ?w' = "example_world\<lparr>project_id := Some 12,
      sent := [\<lparr>req_method = ''POST'', req_url = ''https://dradis.example/pro/api/projects'',
                req_project = None, req_json = Some ?body\<rparr>]\<rparr>"
  have c: "create_project (project_env 12) ''demo'' (Some 1) None None None
             (example_world\<lparr>project_id := Some 3\<rparr>) =
           (Inr (''Project created successfully with ID 12'', example_project 12), ?w')"
    by (simp add: create_project_def get_api_def get_config_def example_world_def
        example_config_def example_api_def truthy_int_def truthy_str_def api_create_project_def
        then_do_def request_def project_env_def example_env_def read_project_def subscript_def
        example_project_def str_int_def digits.simps digit_char_def model_dump_def opt_val_def)
  have i: "pd_id (example_project 12) = 12"
    by (simp add: example_project_def)
  have g: "map req_project (sent (snd (api_get_document_properties (project_env 12) example_api 12 ?w'))) =
             [None, Some ''12'']"
    by (simp add: api_get_document_properties_def request_sent str_int_def digits.simps
        digit_char_def example_world_def)
  from create_project_commits [OF c] c i g
  show ?thesis by (auto simp: example_world_def)
qed

text \<open>
  The claim as it was stated fails when the upstream gives the new project the id 0: the
  call succeeds and stores 0, and the next project-scoped tool fails with ``No project ID
  set'' instead of addressing the new project.
\<close>

theorem create_project_zero_counterexample:
  "fst (create_project (project_env 0) ''demo'' (Some 1) None None None example_world) =
     Inr (''Project created successfully with ID 0'', example_project 0) \<and>
   project_id (snd (create_project (project_env 0) ''demo'' (Some 1) None None None example_world)) =
     Some 0 \<and>
   fst (get_project_details (project_env 0)
        (snd (create_project (project_env 0) ''demo'' (Some 1) None None None example_world))) =
     Inl no_project"
  by (simp add: create_project_def get_api_def get_config_def example_world_def example_config_def
      truthy_int_def truthy_str_def api_create_project_def then_do_def request_def project_env_def
      example_env_def read_project_def subscript_def example_project_def str_int_def digits.simps
      digit_char_def get_project_details_def)

section \<open>Document properties\<close>

text \<open>
  C5. With the fetched property list \<open>L\<close> (a list of dictionaries),
  \<open>upsert_document_property\<close> takes the update path (PUT to the property's own address)
  exactly when some entry of \<open>L\<close> maps the name to a value other than \<open>None\<close>, and the create
  path (POST to the collection) otherwise; an entry that maps the name to \<open>None\<close> does not
  count.
\<close>

theorem upsert_document_property_path:
  assumes "api_get_document_properties e a pid w = (Inr (PList (map PDict L)), w1)"
  shows "api_upsert_document_property e a pid n v w =
     (if \<exists>d \<in> set L. \<exists>x. map_of d n = Some x \<and> x \<noteq> PNone
      then request e a ''PUT'' (''/pro/api/document_properties/'' @ n) (Some pid)
             (Some (PDict [(''document_property'', PDict [(''value'', PStr v)])])) w1
      else request e a ''POST'' ''/pro/api/document_properties'' (Some pid)
             (Some (PDict [(''document_properties'', PDict [(n, PStr v)])])) w1)"
  using assms
  by (simp add: api_upsert_document_property_def then_do_def property_exists_def py_iter_def
      and_then_def any_property_dicts)

text \<open>The scenario of the specification: the list holds \<open>{"owner": null}\<close> only.\<close>

theorem upsert_document_property_path_witness:
  "api_get_document_properties null_owner_env example_api 7 example_world =
     (Inr (PList (map PDict [[(''owner'', PNone)]])),
      example_world\<lparr>sent := [\<lparr>req_method = ''GET'',
        req_url = ''https://dradis.example/pro/api/document_properties'',
        req_project = Some ''7'', req_json = None\<rparr>]\<rparr>) \<and>
   map (\<lambda>r. (req_method r, req_url r, req_json r))
     (sent (snd (api_upsert_document_property null_owner_env example_api 7 ''owner'' ''bob''
                   example_world))) =
     [(''GET'', ''https://dradis.example/pro/api/document_properties'', None),
      (''POST'', ''https://dradis.example/pro/api/document_properties'',
       Some (PDict [(''document_properties'', PDict [(''owner'', PStr ''bob'')])]))]"
proof -
  let ?w1 = "example_world\<lparr>sent := [\<lparr>req_method = ''GET'',
        req_url = ''https://dradis.example/pro/api/document_properties'',
        req_project = Some ''7'', req_json = None\<rparr>]\<rparr>"
  have g: "api_get_document_properties null_owner_env example_api 7 example_world =
     (Inr (PList (map PDict [[(''owner'', PNone)]])), ?w1)"
    by (simp add: api_get_document_properties_def request_def null_owner_env_def example_env_def
        example_world_def example_api_def str_int_def digits.simps digit_char_def)
  show ?thesis
    using g upsert_document_property_path [OF g, of "''owner''" "''bob''"]
    by (simp add: request_sent example_world_def example_api_def)
qed

section \<open>Creating a vulnerability\<close>

text \<open>
  C6. \<open>create_vulnerability\<close> drops every argument whose value is \<open>None\<close> before encoding
  and writes the text of every other value: the one request it sends carries the blocks
  of the arguments that are not \<open>None\<close>, in order, and nothing for the others, and the call
  behaves as if the \<open>None\<close> arguments had not been given.
\<close>

theorem create_vulnerability_drops_null:
  assumes "project_id w = Some p" and "p \<noteq> 0" and "api w = Some a"
  shows "sent (snd (create_vulnerability e kwargs w)) =
     sent w @ [\<lparr>req_method = ''POST'', req_url = base_url a @ ''/pro/api/issues'',
                req_project = Some (str_int p),
                req_json = Some (issue_body
                  (concat (map (\<lambda>(k, v). ''#['' @ k @ '']#'' @ crlf @ py_str v @ crlf @ crlf)
                             (filter (\<lambda>(k, v). v \<noteq> PNone) kwargs))))\<rparr>] \<and>
    create_vulnerability e kwargs w =
      create_vulnerability e (filter (\<lambda>(k, v). v \<noteq> PNone) kwargs) w"
proof -
  have eq: "create_vulnerability e kw w =
       then_do (api_create_vulnerability e a p (non_null_as_text kw) w)
         (\<lambda>result w'. (Inr (''Vulnerability created successfully'', result), w'))" for kw
    using assms by (simp add: create_vulnerability_def truthy_int_def get_api_def)
  have "non_null_as_text (filter (\<lambda>(k, v). v \<noteq> PNone) kwargs) = non_null_as_text kwargs"
    by (simp add: non_null_as_text_def)
  then have same: "create_vulnerability e kwargs w =
      create_vulnerability e (filter (\<lambda>(k, v). v \<noteq> PNone) kwargs) w"
    by (simp add: eq)
  show ?thesis
    using same by (simp add: eq then_do_snd_pure api_create_vulnerability_sent non_null_blocks)
qed

text \<open>The scenario of the specification: \<open>Rating = "High"\<close>, \<open>CVE = None\<close>.\<close>

theorem create_vulnerability_drops_null_witness:
  "sent (snd (create_vulnerability (example_env Raised)
          [(''Rating'', PStr ''High''), (''CVE'', PNone)] (example_world\<lparr>project_id := Some 3\<rparr>))) =
     [\<lparr>req_method = ''POST'', req_url = ''https://dradis.example/pro/api/issues'',
       req_project = Some ''3'',
       req_json = Some (PDict [(''issue'', PDict [(''text'',
         PStr (''#[Rating]#'' @ [CHR 0x0D, CHR 0x0A] @ ''High'' @
               [CHR 0x0D, CHR 0x0A, CHR 0x0D, CHR 0x0A]))])])\<rparr>]"
  using create_vulnerability_drops_null
    [of "example_world\<lparr>project_id := Some 3\<rparr>" 3 example_api "example_env Raised"
      "[(''Rating'', PStr ''High''), (''CVE'', PNone)]", THEN conjunct1]
  by (simp add: example_world_def example_api_def issue_body_def crlf_def py_str_def
      str_int_def digits.simps digit_char_def)

section \<open>Updating a content block\<close>

text \<open>
  C9. The merge of \<open>update_content_block\<close> has no rule for blank values: with a fetched
  block \<open>B\<close> and an update \<open>C\<close> whose values are strings, every key of \<open>C\<close> overwrites (or
  adds) the entry of \<open>B\<close>'s fields, an empty or whitespace-only value too; the merged
  fields are what is encoded and sent, and every entry of \<open>C\<close> is a block of the sent text.
\<close>

theorem update_content_block_overwrites:
  assumes "api_get_content_block e a pid bid w = (Inr B, w1)"
    and "list_all (\<lambda>kv. is_str (snd kv)) C" and "distinct (map fst C)"
  shows "map_of (update_fields (cb_fields B) C) k =
           (case map_of C k of Some v \<Rightarrow> Some v | None \<Rightarrow> map_of (cb_fields B) k) \<and>
         sent (snd (api_update_content_block e a pid bid
                      \<lparr>ucb_block_group = g, ucb_content = C\<rparr> w)) =
           sent w1 @ [\<lparr>req_method = ''PUT'',
                       req_url = base_url a @ ''/pro/api/content_blocks/'' @ str_int bid,
                       req_project = Some (str_int pid),
                       req_json = Some (content_block_body g
                         (construct_dradis_response (update_fields (cb_fields B) C)))\<rparr>] \<and>
         (\<forall>(k, v) \<in> set C.
            sublist (''#['' @ k @ '']#'' @ crlf @ py_str v @ crlf @ crlf)
              (construct_dradis_response (update_fields (cb_fields B) C)))"
proof (intro conjI)
  show "map_of (update_fields (cb_fields B) C) k =
           (case map_of C k of Some v \<Rightarrow> Some v | None \<Rightarrow> map_of (cb_fields B) k)"
    using assms(2,3) by (rule map_of_update_fields)
  let ?body = "content_block_body g (construct_dradis_response (update_fields (cb_fields B) C))"
  let ?rq = "request e a ''PUT'' (''/pro/api/content_blocks/'' @ str_int bid) (Some pid)
               (Some ?body) w1"
  have "snd (api_update_content_block e a pid bid \<lparr>ucb_block_group = g, ucb_content = C\<rparr> w) =
          snd ?rq"
    using assms(1)
    by (cases ?rq) (auto simp: api_update_content_block_def then_do_def Let_def split: sum.splits)
  then show "sent (snd (api_update_content_block e a pid bid
                      \<lparr>ucb_block_group = g, ucb_content = C\<rparr> w)) =
           sent w1 @ [\<lparr>req_method = ''PUT'',
                       req_url = base_url a @ ''/pro/api/content_blocks/'' @ str_int bid,
                       req_project = Some (str_int pid), req_json = Some ?body\<rparr>]"
    by (simp add: request_sent)
  show "\<forall>(k, v) \<in> set C.
            sublist (''#['' @ k @ '']#'' @ crlf @ py_str v @ crlf @ crlf)
              (construct_dradis_response (update_fields (cb_fields B) C))"
    using update_fields_mem [OF _ assms(2,3)] block_sublist
    by (fastforce simp: field_block_def)
qed

text \<open>A blank value for \<open>Notes\<close> replaces the fetched \<open>old\<close> and is sent as an empty field.\<close>

theorem update_content_block_overwrites_witness:
  "map (\<lambda>r. (req_method r, req_json r))
     (sent (snd (api_update_content_block block_env example_api 3 5
        \<lparr>ucb_block_group = ''Conclusions'', ucb_content = [(''Notes'', PStr [])]\<rparr> example_world))) =
   [(''GET'', None),
    (''PUT'', Some (PDict [(''content_block'', PDict [(''block_group'', PStr ''Conclusions''),
       (''content'', PStr (''#[Title]#'' @ [CHR 0x0D, CHR 0x0A] @ ''Summary'' @
                           [CHR 0x0D, CHR 0x0A, CHR 0x0D, CHR 0x0A] @
                           ''#[Notes]#'' @ [CHR 0x0D, CHR 0x0A] @
                           [CHR 0x0D, CHR 0x0A, CHR 0x0D, CHR 0x0A]))])]))]"
proof -
  let ?B = "\<lparr>cb_id = 5, cb_author = ''bob'', cb_block_group = ''Conclusions'',
             cb_title = ''Summary'',
             cb_fields = [(''Title'', PStr ''Summary''), (''Notes'', PStr ''old'')],
             cb_content = []\<rparr>"
  let ?w1 = "example_world\<lparr>sent := [\<lparr>req_method = ''GET'',
        req_url = ''https://dradis.example/pro/api/content_blocks/5'',
        req_project = Some ''3'', req_json = None\<rparr>]\<rparr>"
  have g: "api_get_content_block block_env example_api 3 5 example_world = (Inr ?B, ?w1)"
    by (simp add: api_get_content_block_def then_do_def request_def block_env_def example_env_def
        read_block_def subscript_def example_world_def example_api_def str_int_def digits.simps
        digit_char_def)
  have s: "list_all (\<lambda>kv. is_str (snd kv)) [(''Notes'', PStr [])]"
    by (simp add: is_str_def)
  have d: "distinct (map fst [(''Notes'', PStr [])])"
    by simp
  from update_content_block_overwrites [OF g s d, of _ "''Conclusions''", THEN conjunct2, THEN conjunct1]
  show ?thesis
    by (simp add: example_world_def content_block_body_def construct_dradis_response_def
        field_block_def crlf_def py_str_def is_str_def)
qed

end
